theory Spec2Isabelle
  imports Main "HOL-Library.Word"
begin

section \<open>JavaScript values used by the front end\<close>

text \<open>
  A JavaScript string is a sequence of UTF-16 code units; \<open>length\<close>, \<open>slice\<close>,
  \<open>trim\<close> and the regular expressions of the source all work on code units.
  A string typed by the user is therefore a list of code units (natural numbers),
  and \<open>js\<close> turns an ASCII literal of the source into that representation.
\<close>

type_synonym code_unit = nat
type_synonym jsstring = "code_unit list"

definition js :: "string \<Rightarrow> jsstring" where
  "js s = map of_char s"

text \<open>
  The primitive values a decoded JSON response can hold. Scores are the integers
  0..100 of the analysis result, so \<open>JNum\<close> carries an integer.
\<close>

datatype jsval =
    JUndefined
  | JNull
  | JBool bool
  | JNum int
  | JStr jsstring

text \<open>ToBoolean: what \<open>x ? a : b\<close>, \<open>x && a\<close>, \<open>x || a\<close> and \<open>!x\<close> test.\<close>

fun truthy :: "jsval \<Rightarrow> bool" where
  "truthy JUndefined = False"
| "truthy JNull = False"
| "truthy (JBool b) = b"
| "truthy (JNum n) = (n \<noteq> 0)"
| "truthy (JStr s) = (s \<noteq> [])"

text \<open>\<open>a || b\<close> yields \<open>a\<close> itself when it is truthy, else \<open>b\<close>.\<close>

definition js_or :: "jsval \<Rightarrow> jsval \<Rightarrow> jsval" where
  "js_or a b = (if truthy a then a else b)"

text \<open>Decimal rendering of a number, as ToString gives it for an integer.\<close>

fun dec_digits :: "nat \<Rightarrow> jsstring" where
  "dec_digits n = (if n < 10 then [48 + n] else dec_digits (n div 10) @ [48 + n mod 10])"

definition int_to_jsstring :: "int \<Rightarrow> jsstring" where
  "int_to_jsstring i = (if i < 0 then 45 # dec_digits (nat (- i)) else dec_digits (nat i))"

text \<open>ToPropertyKey on a primitive: the string \<open>obj[k]\<close> looks up.\<close>

fun to_property_key :: "jsval \<Rightarrow> jsstring" where
  "to_property_key JUndefined = js ''undefined''"
| "to_property_key JNull = js ''null''"
| "to_property_key (JBool b) = (if b then js ''true'' else js ''false'')"
| "to_property_key (JNum n) = int_to_jsstring n"
| "to_property_key (JStr s) = s"

text \<open>
  An object literal \<open>{k1: v1, ...}\<close> has its own properties and inherits from
  \<open>Object.prototype\<close>. A property read \<open>obj[k]\<close> returns the own property when
  there is one, else the inherited one, else \<open>undefined\<close>. What is inherited is a
  built-in function (for \<open>__proto__\<close>, the prototype object itself); the model
  names it by its path. A built-in is an object, hence truthy.
\<close>

datatype property = Value jsval | Builtin string

fun truthy_property :: "property \<Rightarrow> bool" where
  "truthy_property (Value v) = truthy v"
| "truthy_property (Builtin b) = True"

definition object_prototype_keys :: "string list" where
  "object_prototype_keys =
    [''constructor'', ''__defineGetter__'', ''__defineSetter__'', ''hasOwnProperty'',
     ''__lookupGetter__'', ''__lookupSetter__'', ''isPrototypeOf'',
     ''propertyIsEnumerable'', ''toString'', ''valueOf'', ''__proto__'',
     ''toLocaleString'']"

definition object_prototype :: "(jsstring \<times> string) list" where
  "object_prototype = map (\<lambda>k. (js k, ''Object.prototype.'' @ k)) object_prototype_keys"

definition get_prop :: "(jsstring \<times> jsval) list \<Rightarrow> jsstring \<Rightarrow> property" where
  "get_prop own k =
     (case map_of own k of
        Some v \<Rightarrow> Value v
      | None \<Rightarrow>
          (case map_of object_prototype k of
             Some b \<Rightarrow> Builtin b
           | None \<Rightarrow> Value JUndefined))"

section \<open>utils/helpers.js\<close>

text \<open>\<open>getStrengthColor(score)\<close>: four comparisons, highest threshold first.\<close>

definition getStrengthColor :: "int \<Rightarrow> string" where
  "getStrengthColor score =
     (if score \<ge> 80 then ''text-green-400''
      else if score \<ge> 60 then ''text-cyan-400''
      else if score \<ge> 40 then ''text-yellow-400''
      else if score \<ge> 20 then ''text-orange-400''
      else ''text-red-400'')"

definition getStrengthGradient :: "int \<Rightarrow> string" where
  "getStrengthGradient score =
     (if score \<ge> 80 then ''from-green-500 to-emerald-400''
      else if score \<ge> 60 then ''from-cyan-500 to-blue-400''
      else if score \<ge> 40 then ''from-yellow-500 to-amber-400''
      else if score \<ge> 20 then ''from-orange-500 to-red-400''
      else ''from-red-600 to-red-400'')"

text \<open>\<open>getStrengthLabel(strength)\<close>: \<open>labels[strength] || 'Unknown'\<close>.\<close>

definition labels :: "(jsstring \<times> jsval) list" where
  "labels =
     [(js ''very_weak'', JStr (js ''Very Weak'')),
      (js ''weak'', JStr (js ''Weak'')),
      (js ''moderate'', JStr (js ''Moderate'')),
      (js ''strong'', JStr (js ''Strong'')),
      (js ''very_strong'', JStr (js ''Very Strong''))]"

definition getStrengthLabel :: "jsval \<Rightarrow> property" where
  "getStrengthLabel strength =
     (let label = get_prop labels (to_property_key strength)
      in if truthy_property label then label else Value (JStr (js ''Unknown'')))"

section \<open>components/PasswordStrengthMeter.jsx\<close>

text \<open>
  The strength meter (in the sources, \<open>unnamed/part_001\<close>) colours its label with
  a function of its own.
\<close>

definition getTextColor :: "int \<Rightarrow> string" where
  "getTextColor score =
     (if score \<ge> 80 then ''text-green-400''
      else if score \<ge> 60 then ''text-cyan-400''
      else if score \<ge> 40 then ''text-yellow-400''
      else if score \<ge> 20 then ''text-orange-400''
      else ''text-red-400'')"

section \<open>The strength tiers of the specification\<close>

text \<open>
  The specification's banding, in its own words: below 20 very weak, below 40 weak,
  below 60 moderate, below 80 strong, else very strong. The display functions are
  compared with it below.
\<close>

datatype tier = Very_weak | Weak | Moderate | Strong | Very_strong

definition spec_tier :: "int \<Rightarrow> tier" where
  "spec_tier score =
     (if score < 20 then Very_weak
      else if score < 40 then Weak
      else if score < 60 then Moderate
      else if score < 80 then Strong
      else Very_strong)"

fun tier_color :: "tier \<Rightarrow> string" where
  "tier_color Very_weak = ''text-red-400''"
| "tier_color Weak = ''text-orange-400''"
| "tier_color Moderate = ''text-yellow-400''"
| "tier_color Strong = ''text-cyan-400''"
| "tier_color Very_strong = ''text-green-400''"

fun tier_gradient :: "tier \<Rightarrow> string" where
  "tier_gradient Very_weak = ''from-red-600 to-red-400''"
| "tier_gradient Weak = ''from-orange-500 to-red-400''"
| "tier_gradient Moderate = ''from-yellow-500 to-amber-400''"
| "tier_gradient Strong = ''from-cyan-500 to-blue-400''"
| "tier_gradient Very_strong = ''from-green-500 to-emerald-400''"

section \<open>String operations of the source\<close>

text \<open>
  The character classes of the regular expressions in the source, on code units:
  \<open>\d\<close> is \<open>[0-9]\<close> (the expressions carry no unicode flag), \<open>\D\<close> its
  complement.
\<close>

definition is_digit :: "code_unit \<Rightarrow> bool" where
  "is_digit c = (48 \<le> c \<and> c \<le> 57)"

definition is_upper :: "code_unit \<Rightarrow> bool" where
  "is_upper c = (65 \<le> c \<and> c \<le> 90)"

definition is_lower :: "code_unit \<Rightarrow> bool" where
  "is_lower c = (97 \<le> c \<and> c \<le> 122)"

text \<open>\<open>/re/.test(s)\<close> for a one-character class: some code unit of \<open>s\<close> is in it.\<close>

definition regex_test :: "(code_unit \<Rightarrow> bool) \<Rightarrow> jsstring \<Rightarrow> bool" where
  "regex_test cls s = list_ex cls s"

text \<open>
  \<open>String.prototype.trim\<close> removes leading and trailing WhiteSpace and
  LineTerminator code units: TAB, LF, VT, FF, CR, SP, NBSP, U+1680, U+2000..U+200A,
  U+2028, U+2029, U+202F, U+205F, U+3000 and U+FEFF.
\<close>

definition is_white_space :: "code_unit \<Rightarrow> bool" where
  "is_white_space c =
     ((9 \<le> c \<and> c \<le> 13) \<or> c = 32 \<or> c = 160 \<or> c = 5760 \<or>
      (8192 \<le> c \<and> c \<le> 8202) \<or> c = 8232 \<or> c = 8233 \<or> c = 8239 \<or>
      c = 8287 \<or> c = 12288 \<or> c = 65279)"

definition trim :: "jsstring \<Rightarrow> jsstring" where
  "trim s = rev (dropWhile is_white_space (rev (dropWhile is_white_space s)))"

section \<open>Requests and other effects of the event handlers\<close>

text \<open>
  An event handler changes the component's state and has effects: requests through
  \<open>api.post(url, body)\<close> (the body a JSON object, its keys in the order the source
  writes them), toasts, console output, navigation, a callback of the parent, the
  storing of the session tokens and user after a login or registration. A
  handler of the model returns the new state and the list of its effects in order.
  The promise of a request either resolves with the response data or is rejected
  (network error or a status outside 2xx); \<open>Rejected\<close> carries
  \<open>error.response?.data?.error\<close>, which is \<open>undefined\<close> when there is none.
\<close>

type_synonym json_object = "(string \<times> jsval) list"

datatype effect =
    Post string json_object
  | Toast_error jsval
  | Toast_success jsval
  | Console_error string
  | Navigate string
  | Callback string
  | Store_session

datatype 'a response = Resolved 'a | Rejected jsval

fun requests :: "effect list \<Rightarrow> (string \<times> json_object) list" where
  "requests [] = []"
| "requests (Post url body # es) = (url, body) # requests es"
| "requests (e # es) = requests es"

section \<open>components/BreachChecker.jsx\<close>

text \<open>
  The response data of the two breach endpoints, as far as the component reads it:
  \<open>error\<close>, \<open>breached\<close>, \<open>count\<close>, for an email the list \<open>breaches\<close> (each
  with a name and a date), and for a password \<open>hash_info\<close> with its prefix and
  suffix. A scalar field the response lacks reads as \<open>undefined\<close>; a missing list
  or \<open>hash_info\<close> is \<open>None\<close>.
\<close>

record breach =
  breach_name :: jsval
  breach_date :: jsval

record breach_result =
  br_error :: jsval
  br_breached :: jsval
  br_count :: jsval
  br_breaches :: "breach list option"
  br_hash_info :: "(jsstring \<times> jsstring) option"

record breach_checker =
  bc_email :: jsstring
  bc_password :: jsstring
  bc_emailResult :: "breach_result option"
  bc_passwordResult :: "breach_result option"
  bc_loading_email :: bool
  bc_loading_password :: bool

definition checkEmail ::
  "breach_result option response \<Rightarrow> breach_checker \<Rightarrow> breach_checker \<times> effect list" where
  "checkEmail resp st =
     (if trim (bc_email st) = [] then
        (st, [Toast_error (JStr (js ''Please enter an email address''))])
      else
        (case resp of
           Resolved d \<Rightarrow>
             (st\<lparr>bc_emailResult := d, bc_loading_email := False\<rparr>,
              [Post ''/breach/check-email'' [(''email'', JStr (bc_email st))]])
         | Rejected e \<Rightarrow>
             (st\<lparr>bc_loading_email := False\<rparr>,
              [Post ''/breach/check-email'' [(''email'', JStr (bc_email st))],
               Toast_error (JStr (js ''Failed to check email''))])))"

definition checkPassword ::
  "breach_result option response \<Rightarrow> breach_checker \<Rightarrow> breach_checker \<times> effect list" where
  "checkPassword resp st =
     (if trim (bc_password st) = [] then
        (st, [Toast_error (JStr (js ''Please enter a password''))])
      else
        (case resp of
           Resolved d \<Rightarrow>
             (st\<lparr>bc_passwordResult := d, bc_loading_password := False\<rparr>,
              [Post ''/breach/check-password'' [(''password'', JStr (bc_password st))]])
         | Rejected e \<Rightarrow>
             (st\<lparr>bc_loading_password := False\<rparr>,
              [Post ''/breach/check-password'' [(''password'', JStr (bc_password st))],
               Toast_error (JStr (js ''Failed to check password''))])))"

text \<open>
  What the component renders for a result. The email section tests
  \<open>emailResult.error\<close> first (yellow box with the error text), then
  \<open>emailResult.breached\<close> (red box with the count and the first five breaches,
  each with its date when it has one), else the green box. The password section
  tests \<open>passwordResult.breached\<close> only (red box with the count, else the green
  box). Nothing is rendered while the result is \<open>null\<close>.
\<close>

datatype panel =
    Unavailable_panel jsval
  | Breached_panel jsval "(jsval \<times> jsval option) list"
  | Not_found_panel

definition shown_breaches :: "breach list option \<Rightarrow> (jsval \<times> jsval option) list" where
  "shown_breaches bs =
     (case bs of
        None \<Rightarrow> []
      | Some l \<Rightarrow>
          map (\<lambda>b. (breach_name b, if truthy (breach_date b) then Some (breach_date b) else None))
            (take 5 l))"

definition render_emailResult :: "breach_result option \<Rightarrow> panel option" where
  "render_emailResult res =
     (case res of
        None \<Rightarrow> None
      | Some r \<Rightarrow>
          Some (if truthy (br_error r) then Unavailable_panel (br_error r)
                else if truthy (br_breached r)
                  then Breached_panel (br_count r) (shown_breaches (br_breaches r))
                else Not_found_panel))"

definition render_passwordResult :: "breach_result option \<Rightarrow> panel option" where
  "render_passwordResult res =
     (case res of
        None \<Rightarrow> None
      | Some r \<Rightarrow>
          Some (if truthy (br_breached r) then Breached_panel (br_count r) []
                else Not_found_panel))"

text \<open>The hash box under the password result: shown when \<open>hash_info\<close> is there.\<close>

definition render_hash_info :: "breach_result option \<Rightarrow> (jsstring \<times> jsstring) option" where
  "render_hash_info res = (case res of None \<Rightarrow> None | Some r \<Rightarrow> br_hash_info r)"

section \<open>components/PasswordGenerator.jsx\<close>

text \<open>
  The generator component (in the sources, the second half of
  \<open>components/SecurityScore.jsx\<close>) keeps its options in one state object.
\<close>

record options =
  opt_length :: int
  useLowercase :: bool
  useUppercase :: bool
  useDigits :: bool
  useSymbols :: bool
  opt_type :: string
  wordCount :: int

definition initial_options :: options where
  "initial_options =
     \<lparr>opt_length = 16, useLowercase = True, useUppercase = True, useDigits = True,
      useSymbols = True, opt_type = ''password'', wordCount = 4\<rparr>"

text \<open>
  The value of an \<open><input type="range" min=lo max=hi>\<close>: the browser keeps it within
  the two bounds (value sanitisation of the range state; the step is 1, so it is an
  integer), whatever position the user asks for. \<open>parseInt\<close> of it is that integer.
\<close>

definition range_value :: "int \<Rightarrow> int \<Rightarrow> int \<Rightarrow> int" where
  "range_value lo hi v = (if v < lo then lo else if v > hi then hi else v)"

text \<open>
  The controls of the component, each with the \<open>updateOption\<close> call of its handler.
  The length slider and the four check boxes are rendered in password mode only, the
  word-count slider otherwise; an event of a control that is not rendered cannot
  occur and leaves the options as they are.
\<close>

datatype generator_event =
    Click_password
  | Click_passphrase
  | Slide_length int
  | Check_lowercase bool
  | Check_uppercase bool
  | Check_digits bool
  | Check_symbols bool
  | Slide_wordCount int

fun updateOption :: "options \<Rightarrow> generator_event \<Rightarrow> options" where
  "updateOption opts Click_password = opts\<lparr>opt_type := ''password''\<rparr>"
| "updateOption opts Click_passphrase = opts\<lparr>opt_type := ''passphrase''\<rparr>"
| "updateOption opts (Slide_length v) =
     (if opt_type opts = ''password'' then opts\<lparr>opt_length := range_value 8 64 v\<rparr> else opts)"
| "updateOption opts (Check_lowercase b) =
     (if opt_type opts = ''password'' then opts\<lparr>useLowercase := b\<rparr> else opts)"
| "updateOption opts (Check_uppercase b) =
     (if opt_type opts = ''password'' then opts\<lparr>useUppercase := b\<rparr> else opts)"
| "updateOption opts (Check_digits b) =
     (if opt_type opts = ''password'' then opts\<lparr>useDigits := b\<rparr> else opts)"
| "updateOption opts (Check_symbols b) =
     (if opt_type opts = ''password'' then opts\<lparr>useSymbols := b\<rparr> else opts)"
| "updateOption opts (Slide_wordCount v) =
     (if opt_type opts = ''password'' then opts else opts\<lparr>wordCount := range_value 3 8 v\<rparr>)"

text \<open>The options after a sequence of events, from the initial ones.\<close>

definition options_after :: "generator_event list \<Rightarrow> options" where
  "options_after evs = foldl updateOption initial_options evs"

text \<open>
  The body \<open>generatePassword\<close> posts to \<open>/generate\<close>, and the request itself.
  What the handler does with the response (it stores the password and its analysis
  and calls \<open>onGenerate\<close>, or shows a toast) does not touch the options.
\<close>

definition payload :: "options \<Rightarrow> json_object" where
  "payload opts =
     (if opt_type opts = ''passphrase'' then
        [(''type'', JStr (js ''passphrase'')), (''word_count'', JNum (wordCount opts))]
      else
        [(''type'', JStr (js ''password'')),
         (''length'', JNum (opt_length opts)),
         (''use_lowercase'', JBool (useLowercase opts)),
         (''use_uppercase'', JBool (useUppercase opts)),
         (''use_digits'', JBool (useDigits opts)),
         (''use_symbols'', JBool (useSymbols opts))])"

definition generatePassword :: "options \<Rightarrow> effect list" where
  "generatePassword opts = [Post ''/generate'' (payload opts)]"

text \<open>
  The bounds of the specification's generation request, in its words: a password
  request has a length within 8..128 and four booleans, one per character class; a
  passphrase request has a word count within 3..10 and nothing else.
\<close>

fun is_bool :: "jsval option \<Rightarrow> bool" where
  "is_bool (Some (JBool b)) = True"
| "is_bool v = False"

fun int_within :: "int \<Rightarrow> int \<Rightarrow> jsval option \<Rightarrow> bool" where
  "int_within lo hi (Some (JNum n)) = (lo \<le> n \<and> n \<le> hi)"
| "int_within lo hi v = False"

definition generation_spec_ok :: "json_object \<Rightarrow> bool" where
  "generation_spec_ok body =
     (if map_of body ''type'' = Some (JStr (js ''password'')) then
        map fst body =
          [''type'', ''length'', ''use_lowercase'', ''use_uppercase'', ''use_digits'',
           ''use_symbols''] \<and>
        int_within 8 128 (map_of body ''length'') \<and>
        is_bool (map_of body ''use_lowercase'') \<and>
        is_bool (map_of body ''use_uppercase'') \<and>
        is_bool (map_of body ''use_digits'') \<and>
        is_bool (map_of body ''use_symbols'')
      else if map_of body ''type'' = Some (JStr (js ''passphrase'')) then
        map fst body = [''type'', ''word_count''] \<and>
        int_within 3 10 (map_of body ''word_count'')
      else False)"

text \<open>What every event preserves: both numbers within their slider, a known mode.\<close>

definition options_inv :: "options \<Rightarrow> bool" where
  "options_inv opts =
     (8 \<le> opt_length opts \<and> opt_length opts \<le> 64 \<and>
      3 \<le> wordCount opts \<and> wordCount opts \<le> 8 \<and>
      (opt_type opts = ''password'' \<or> opt_type opts = ''passphrase''))"

section \<open>components/TwoFactorSetup.jsx\<close>

text \<open>
  The two-factor setup (in the sources, the second half of \<open>unnamed/part_002\<close>).
  The code field's \<open>onChange\<close> stores
  \<open>e.target.value.replace(/\D/g, '').slice(0, 6)\<close>: the input without its
  non-digits, cut to its first six code units. The login page does the same.
\<close>

definition sanitize_code :: "jsstring \<Rightarrow> jsstring" where
  "sanitize_code raw = take 6 (filter is_digit raw)"

record two_factor_setup =
  tf_step :: string
  tf_verifyCode :: jsstring
  tf_loading :: bool
  tf_onComplete :: bool

definition initial_two_factor_setup :: "bool \<Rightarrow> two_factor_setup" where
  "initial_two_factor_setup has_onComplete =
     \<lparr>tf_step = ''setup'', tf_verifyCode = [], tf_loading = False,
      tf_onComplete = has_onComplete\<rparr>"

definition setVerifyCode_onChange :: "two_factor_setup \<Rightarrow> jsstring \<Rightarrow> two_factor_setup" where
  "setVerifyCode_onChange st raw = st\<lparr>tf_verifyCode := sanitize_code raw\<rparr>"

definition verifyAndEnable ::
  "unit response \<Rightarrow> two_factor_setup \<Rightarrow> two_factor_setup \<times> effect list" where
  "verifyAndEnable resp st =
     (if length (tf_verifyCode st) \<noteq> 6 then
        (st, [Toast_error (JStr (js ''Please enter a 6-digit code''))])
      else
        (case resp of
           Resolved d \<Rightarrow>
             (st\<lparr>tf_loading := False\<rparr>,
              [Post ''/auth/2fa/verify'' [(''code'', JStr (tf_verifyCode st))],
               Toast_success (JStr (js ''2FA has been enabled!''))]
              @ (if tf_onComplete st then [Callback ''onComplete''] else []))
         | Rejected e \<Rightarrow>
             (st\<lparr>tf_loading := False\<rparr>,
              [Post ''/auth/2fa/verify'' [(''code'', JStr (tf_verifyCode st))],
               Toast_error (js_or e (JStr (js ''Invalid verification code'')))])))"

text \<open>The button's \<open>disabled={loading || verifyCode.length !== 6}\<close>.\<close>

definition verify_button_disabled :: "two_factor_setup \<Rightarrow> bool" where
  "verify_button_disabled st = (tf_loading st \<or> length (tf_verifyCode st) \<noteq> 6)"

text \<open>The component's state after the user has changed the code field several times.\<close>

definition verifyCode_after :: "bool \<Rightarrow> jsstring list \<Rightarrow> two_factor_setup" where
  "verifyCode_after has_onComplete raws =
     foldl setVerifyCode_onChange (initial_two_factor_setup has_onComplete) raws"

section \<open>pages/Login.jsx and context/AuthContext.jsx\<close>

text \<open>
  The login page (in the sources, the first half of \<open>unnamed/part_003\<close>): its
  code field, and the request its \<open>handleSubmit\<close> issues through the auth
  context.
\<close>

record login_form =
  lg_email :: jsstring
  lg_password :: jsstring
  lg_totpCode :: jsstring
  lg_requires2FA :: bool

definition totpCode_onChange :: "login_form \<Rightarrow> jsstring \<Rightarrow> login_form" where
  "totpCode_onChange st raw = st\<lparr>lg_totpCode := sanitize_code raw\<rparr>"

text \<open>
  \<open>login(email, password, totpCode)\<close> of the auth context: the body gets a
  \<open>totp_code\<close> only when the code is truthy. The page passes its code when the
  server has asked for one and \<open>null\<close> otherwise; it tests no length.
\<close>

definition login_body :: "jsstring \<Rightarrow> jsstring \<Rightarrow> jsval \<Rightarrow> json_object" where
  "login_body email password totpCode =
     [(''email'', JStr email), (''password'', JStr password)]
     @ (if truthy totpCode then [(''totp_code'', totpCode)] else [])"

definition login_request :: "login_form \<Rightarrow> effect" where
  "login_request st =
     Post ''/auth/login''
       (login_body (lg_email st) (lg_password st)
          (if lg_requires2FA st then JStr (lg_totpCode st) else JNull))"

section \<open>pages/Analyzer.jsx\<close>

text \<open>
  The analyzer page (in the sources, the second half of \<open>unnamed/part_003\<close>).
  \<open>'r\<close> is the analysis result the server sends; \<open>analyzePassword\<close> returns at
  once, silently, when the trimmed password is empty.
\<close>

record 'r analyzer =
  an_password :: jsstring
  an_analysis :: "'r option"
  an_loading :: bool

definition analyzePassword :: "'r option response \<Rightarrow> 'r analyzer \<Rightarrow> 'r analyzer \<times> effect list" where
  "analyzePassword resp st =
     (if trim (an_password st) = [] then (st, [])
      else
        (case resp of
           Resolved d \<Rightarrow>
             (st\<lparr>an_analysis := d, an_loading := False\<rparr>,
              [Post ''/analyze'' [(''password'', JStr (an_password st))]])
         | Rejected e \<Rightarrow>
             (st\<lparr>an_loading := False\<rparr>,
              [Post ''/analyze'' [(''password'', JStr (an_password st))],
               Console_error ''Analysis failed:''])))"

definition handleKeyDown ::
  "'r option response \<Rightarrow> string \<Rightarrow> 'r analyzer \<Rightarrow> 'r analyzer \<times> effect list" where
  "handleKeyDown resp key st = (if key = ''Enter'' then analyzePassword resp st else (st, []))"

text \<open>The button's \<open>disabled={loading || !password.trim()}\<close>.\<close>

definition analyze_button_disabled :: "'r analyzer \<Rightarrow> bool" where
  "analyze_button_disabled st = (an_loading st \<or> trim (an_password st) = [])"

section \<open>pages/Register.jsx\<close>

record 'r register_form =
  rg_email :: jsstring
  rg_password :: jsstring
  rg_confirmPassword :: jsstring
  rg_passwordAnalysis :: "'r option"
  rg_loading :: bool

datatype form_field = Email_field | Password_field | ConfirmPassword_field

definition set_field :: "form_field \<Rightarrow> jsstring \<Rightarrow> 'r register_form \<Rightarrow> 'r register_form" where
  "set_field name v st =
     (case name of
        Email_field \<Rightarrow> st\<lparr>rg_email := v\<rparr>
      | Password_field \<Rightarrow> st\<lparr>rg_password := v\<rparr>
      | ConfirmPassword_field \<Rightarrow> st\<lparr>rg_confirmPassword := v\<rparr>)"

text \<open>
  \<open>handleChange\<close>: stores the field and, for the password field, asks for an
  analysis of every value of length above 0 (errors are ignored) and clears the
  analysis for the empty value.
\<close>

definition handleChange ::
  "'r option response \<Rightarrow> form_field \<Rightarrow> jsstring \<Rightarrow> 'r register_form
     \<Rightarrow> 'r register_form \<times> effect list" where
  "handleChange resp name v st =
     (if name = Password_field \<and> length v > 0 then
        (case resp of
           Resolved d \<Rightarrow>
             ((set_field name v st)\<lparr>rg_passwordAnalysis := d\<rparr>,
              [Post ''/analyze'' [(''password'', JStr v)]])
         | Rejected e \<Rightarrow>
             (set_field name v st, [Post ''/analyze'' [(''password'', JStr v)]]))
      else if name = Password_field \<and> length v = 0 then
        ((set_field name v st)\<lparr>rg_passwordAnalysis := None\<rparr>, [])
      else (set_field name v st, []))"

definition passwordRequirements :: "'r register_form \<Rightarrow> (string \<times> bool) list" where
  "passwordRequirements st =
     [(''At least 8 characters'', length (rg_password st) \<ge> 8),
      (''Contains uppercase letter'', regex_test is_upper (rg_password st)),
      (''Contains lowercase letter'', regex_test is_lower (rg_password st)),
      (''Contains number'', regex_test is_digit (rg_password st))]"

text \<open>
  \<open>handleSubmit\<close>, with \<open>register(email, password)\<close> of the auth context inlined:
  the request, then the storing of the tokens and the user.
\<close>

definition handleSubmit ::
  "unit response \<Rightarrow> 'r register_form \<Rightarrow> 'r register_form \<times> effect list" where
  "handleSubmit resp st =
     (if rg_password st \<noteq> rg_confirmPassword st then
        (st, [Toast_error (JStr (js ''Passwords do not match''))])
      else if \<not> list_all snd (passwordRequirements st) then
        (st, [Toast_error (JStr (js ''Please meet all password requirements''))])
      else
        (case resp of
           Resolved d \<Rightarrow>
             (st\<lparr>rg_loading := False\<rparr>,
              [Post ''/auth/register''
                 [(''email'', JStr (rg_email st)), (''password'', JStr (rg_password st))],
               Store_session,
               Toast_success (JStr (js ''Account created successfully!'')),
               Navigate ''/dashboard''])
         | Rejected e \<Rightarrow>
             (st\<lparr>rg_loading := False\<rparr>,
              [Post ''/auth/register''
                 [(''email'', JStr (rg_email st)), (''password'', JStr (rg_password st))],
               Toast_error (js_or e (JStr (js ''Registration failed'')))])))"

section \<open>The Strength Analyzer of the specification\<close>

text \<open>
  Modelled from the spec: the Strength Analyzer \<open>analyze(password)\<close> of section
  4.1, which runs on the server; its code is not among the sources (the pages above
  are its callers). The model follows the specification's steps as far as they are
  fixed by its text: step 1 rejects the empty input with a validation error; the
  result holds the input length, the counts of the four character classes (lower,
  upper, digit, symbol), the number of distinct characters, and the patterns
  detected independently of the rest: a character repeated three or more times in a
  row, an ascending or descending run of three or more. The specification names no
  keyboard table, date shapes, common-password list or scoring weights (it leaves
  the weights open), and its entropy is a floating-point number; those fields are
  left out. It states that the analyzer fails on no input but the empty one.
\<close>

datatype analysis_error = Validation_error

datatype pattern = Repeated_run | Ascending_sequence | Descending_sequence

record analysis_result =
  ar_length :: nat
  ar_lowercase :: nat
  ar_uppercase :: nat
  ar_digits :: nat
  ar_symbols :: nat
  ar_unique :: nat
  ar_patterns :: "pattern list"

definition is_symbol :: "code_unit \<Rightarrow> bool" where
  "is_symbol c = (\<not> is_lower c \<and> \<not> is_upper c \<and> \<not> is_digit c)"

text \<open>Three consecutive characters, each related to the next by \<open>r\<close>.\<close>

fun run3 :: "(code_unit \<Rightarrow> code_unit \<Rightarrow> bool) \<Rightarrow> jsstring \<Rightarrow> bool" where
  "run3 r (a # b # c # s) = ((r a b \<and> r b c) \<or> run3 r (b # c # s))"
| "run3 r s = False"

definition detect_patterns :: "jsstring \<Rightarrow> pattern list" where
  "detect_patterns s =
     (if run3 (\<lambda>a b. b = a) s then [Repeated_run] else [])
     @ (if run3 (\<lambda>a b. b = a + 1) s then [Ascending_sequence] else [])
     @ (if run3 (\<lambda>a b. a = b + 1) s then [Descending_sequence] else [])"

text \<open>
  Modelled from the spec: \<open>analyze\<close>, step 1 (reject the empty input) and the
  fields of the result described above.
\<close>

definition analyze :: "jsstring \<Rightarrow> analysis_error + analysis_result" where
  "analyze password =
     (if password = [] then Inl Validation_error
      else Inr \<lparr>ar_length = length password,
                ar_lowercase = length (filter is_lower password),
                ar_uppercase = length (filter is_upper password),
                ar_digits = length (filter is_digit password),
                ar_symbols = length (filter is_symbol password),
                ar_unique = length (remdups password),
                ar_patterns = detect_patterns password\<rparr>)"

text \<open>
  Modelled from the spec: the answer of the server to \<open>POST /analyze\<close>, a
  structured result or a typed failure (section 6); the route is not among the
  sources. The text of the failure is not specified.
\<close>

definition analyze_response :: "jsstring \<Rightarrow> analysis_result option response" where
  "analyze_response password =
     (case analyze password of
        Inl e \<Rightarrow> Rejected JUndefined
      | Inr r \<Rightarrow> Resolved (Some r))"

section \<open>The Breach Oracle of the specification\<close>

unbundle bit_operations_syntax

text \<open>
  Modelled from the spec: the password path of the Breach Oracle (section 4.4), which
  runs on the server; its code is not among the sources. The specification names
  SHA-1; the model is the algorithm of FIPS 180-4 on bytes, with 32-bit words, and
  the digest written as 40 upper-case hexadecimal digits.
\<close>

type_synonym byte = "8 word"
type_synonym word32 = "32 word"

text \<open>Rotation to the left by \<open>n\<close> bits, \<open>0 < n < 32\<close>.\<close>

definition rotl :: "nat \<Rightarrow> word32 \<Rightarrow> word32" where
  "rotl n w = (push_bit n w) OR (drop_bit (32 - n) w)"

text \<open>
  Padding: one bit 1 (the byte 0x80), zero bytes up to 56 modulo 64, and the length
  of the message in bits as 8 bytes, most significant first.
\<close>

definition be64 :: "64 word \<Rightarrow> byte list" where
  "be64 w =
     [ucast (drop_bit 56 w), ucast (drop_bit 48 w), ucast (drop_bit 40 w),
      ucast (drop_bit 32 w), ucast (drop_bit 24 w), ucast (drop_bit 16 w),
      ucast (drop_bit 8 w), ucast w]"

definition pad :: "byte list \<Rightarrow> byte list" where
  "pad msg =
     msg @ [0x80] @ replicate ((119 - length msg mod 64) mod 64) 0
     @ be64 (of_nat (8 * length msg))"

text \<open>The padded message as big-endian 32-bit words, cut into blocks of 16.\<close>

fun be_words :: "byte list \<Rightarrow> word32 list" where
  "be_words (a # b # c # d # r) =
     (push_bit 24 (ucast a) OR push_bit 16 (ucast b) OR push_bit 8 (ucast c) OR ucast d) # be_words r"
| "be_words r = []"

fun split_blocks :: "nat \<Rightarrow> 'a list \<Rightarrow> 'a list list" where
  "split_blocks 0 ws = []"
| "split_blocks (Suc n) ws = take 16 ws # split_blocks n (drop 16 ws)"

text \<open>
  The message schedule extends the 16 words of a block to 80:
  \<open>w[i] = rotl 1 (w[i-3] XOR w[i-8] XOR w[i-14] XOR w[i-16])\<close>. \<open>schedule\<close> keeps
  the words in reverse, the newest first.
\<close>

fun schedule :: "nat \<Rightarrow> word32 list \<Rightarrow> word32 list" where
  "schedule 0 ws = ws"
| "schedule (Suc n) ws =
     schedule n (rotl 1 (ws ! 2 XOR ws ! 7 XOR ws ! 13 XOR ws ! 15) # ws)"

text \<open>The function and the constant of round \<open>i\<close>, and the round itself.\<close>

definition sha1_f :: "nat \<Rightarrow> word32 \<Rightarrow> word32 \<Rightarrow> word32 \<Rightarrow> word32" where
  "sha1_f i b c d =
     (if i < 20 then (b AND c) OR (NOT b AND d)
      else if i < 40 then b XOR c XOR d
      else if i < 60 then (b AND c) OR (b AND d) OR (c AND d)
      else b XOR c XOR d)"

definition sha1_k :: "nat \<Rightarrow> word32" where
  "sha1_k i =
     (if i < 20 then 0x5A827999
      else if i < 40 then 0x6ED9EBA1
      else if i < 60 then 0x8F1BBCDC
      else 0xCA62C1D6)"

type_synonym sha1_state = "word32 \<times> word32 \<times> word32 \<times> word32 \<times> word32"

fun sha1_round :: "nat \<times> word32 \<Rightarrow> sha1_state \<Rightarrow> sha1_state" where
  "sha1_round (i, w) (a, b, c, d, e) =
     (rotl 5 a + sha1_f i b c d + e + sha1_k i + w, a, rotl 30 b, c, d)"

fun add_state :: "sha1_state \<Rightarrow> sha1_state \<Rightarrow> sha1_state" where
  "add_state (a, b, c, d, e) (a', b', c', d', e') = (a + a', b + b', c + c', d + d', e + e')"

fun rounds :: "nat \<Rightarrow> word32 list \<Rightarrow> sha1_state \<Rightarrow> sha1_state" where
  "rounds i [] s = s"
| "rounds i (w # ws) s = rounds (i + 1) ws (sha1_round (i, w) s)"

definition message_schedule :: "word32 list \<Rightarrow> word32 list" where
  "message_schedule block = rev (schedule 64 (rev block))"

definition compress :: "word32 list \<Rightarrow> sha1_state \<Rightarrow> sha1_state" where
  "compress block h = add_state h (rounds 0 (message_schedule block) h)"

text \<open>
  Modelled from the spec: "compute SHA-1 of the password". The message is padded to
  one or more blocks of 16 words, and each block is compressed into the state.
\<close>

definition sha1 :: "byte list \<Rightarrow> sha1_state" where
  "sha1 msg =
     (let ws = be_words (pad msg)
      in fold compress (split_blocks (length ws div 16) ws)
           (0x67452301, 0xEFCDAB89, 0x98BADCFE, 0x10325476, 0xC3D2E1F0))"

text \<open>
  The digest in hexadecimal, upper case, eight digits per word. A nibble is below
  16, so the digit table is never read out of range.
\<close>

definition hex_digit :: "nat \<Rightarrow> char" where
  "hex_digit n = ''0123456789ABCDEF'' ! n"

definition nibble :: "nat \<Rightarrow> word32 \<Rightarrow> nat" where
  "nibble k w = unat (take_bit 4 (drop_bit k w))"

definition hex32 :: "word32 \<Rightarrow> string" where
  "hex32 w =
     [hex_digit (nibble 28 w), hex_digit (nibble 24 w), hex_digit (nibble 20 w),
      hex_digit (nibble 16 w), hex_digit (nibble 12 w), hex_digit (nibble 8 w),
      hex_digit (nibble 4 w), hex_digit (nibble 0 w)]"

fun hex_state :: "sha1_state \<Rightarrow> string" where
  "hex_state (a, b, c, d, e) = hex32 a @ hex32 b @ hex32 c @ hex32 d @ hex32 e"

definition sha1_hex :: "byte list \<Rightarrow> string" where
  "sha1_hex msg = hex_state (sha1 msg)"

text \<open>The bytes of an ASCII literal.\<close>

definition ascii :: "string \<Rightarrow> byte list" where
  "ascii s = map of_char s"

definition is_upper_hex :: "char \<Rightarrow> bool" where
  "is_upper_hex c = (c \<in> set ''0123456789ABCDEF'')"

text \<open>
  The outcome of a check: found with its count, not found, or the structured
  "service unavailable". The remote corpus answers a query with the list of
  (suffix, count) pairs, or not at all (network error, non-success status).
\<close>

datatype breach_outcome = Breached nat | Not_breached | Unavailable

type_synonym corpus = "string \<Rightarrow> (string \<times> nat) list option"

text \<open>
  Modelled from the spec: \<open>checkPassword\<close> of the Breach Oracle, with the remote
  corpus as a parameter. It returns what it sent to the corpus and the outcome: the
  hash is split into its first 5 characters and the rest, only the prefix is sent,
  and the suffix is looked up in the answer locally.
\<close>

definition oracle_checkPassword :: "corpus \<Rightarrow> byte list \<Rightarrow> string list \<times> breach_outcome" where
  "oracle_checkPassword remote password =
     (let hash = sha1_hex password;
          prefix = take 5 hash;
          suffix = drop 5 hash
      in ([prefix],
          case remote prefix of
            None \<Rightarrow> Unavailable
          | Some pairs \<Rightarrow>
              (case map_of pairs suffix of
                 None \<Rightarrow> Not_breached
               | Some n \<Rightarrow> Breached n)))"

text \<open>A test double of the corpus: one bucket, holding the suffix of \<open>password\<close>.\<close>

definition test_corpus :: corpus where
  "test_corpus query =
     (if query = ''5BAA6''
      then Some [(''0018A45C4D1DEF81644B54AB7F969B88D65'', 10),
                 (''1E4C9B93F3F0682250B6CF8331B7EE68FD8'', 3861493)]
      else Some [])"

section \<open>Score bands\<close>

lemma getStrengthColor_tier: "getStrengthColor s = tier_color (spec_tier s)"
  by (simp add: getStrengthColor_def spec_tier_def)

lemma getStrengthGradient_tier: "getStrengthGradient s = tier_gradient (spec_tier s)"
  by (simp add: getStrengthGradient_def spec_tier_def)

lemma getTextColor_tier: "getTextColor s = tier_color (spec_tier s)"
  by (simp add: getTextColor_def spec_tier_def)

lemma getStrengthColor_bands:
  "(getStrengthColor s = ''text-red-400'' \<longleftrightarrow> s < 20) \<and>
   (getStrengthColor s = ''text-orange-400'' \<longleftrightarrow> 20 \<le> s \<and> s < 40) \<and>
   (getStrengthColor s = ''text-yellow-400'' \<longleftrightarrow> 40 \<le> s \<and> s < 60) \<and>
   (getStrengthColor s = ''text-cyan-400'' \<longleftrightarrow> 60 \<le> s \<and> s < 80) \<and>
   (getStrengthColor s = ''text-green-400'' \<longleftrightarrow> 80 \<le> s)"
  by (auto simp add: getStrengthColor_def)

lemma getStrengthGradient_bands:
  "(getStrengthGradient s = ''from-red-600 to-red-400'' \<longleftrightarrow> s < 20) \<and>
   (getStrengthGradient s = ''from-orange-500 to-red-400'' \<longleftrightarrow> 20 \<le> s \<and> s < 40) \<and>
   (getStrengthGradient s = ''from-yellow-500 to-amber-400'' \<longleftrightarrow> 40 \<le> s \<and> s < 60) \<and>
   (getStrengthGradient s = ''from-cyan-500 to-blue-400'' \<longleftrightarrow> 60 \<le> s \<and> s < 80) \<and>
   (getStrengthGradient s = ''from-green-500 to-emerald-400'' \<longleftrightarrow> 80 \<le> s)"
  by (auto simp add: getStrengthGradient_def)

lemma getTextColor_bands:
  "(getTextColor s = ''text-red-400'' \<longleftrightarrow> s < 20) \<and>
   (getTextColor s = ''text-orange-400'' \<longleftrightarrow> 20 \<le> s \<and> s < 40) \<and>
   (getTextColor s = ''text-yellow-400'' \<longleftrightarrow> 40 \<le> s \<and> s < 60) \<and>
   (getTextColor s = ''text-cyan-400'' \<longleftrightarrow> 60 \<le> s \<and> s < 80) \<and>
   (getTextColor s = ''text-green-400'' \<longleftrightarrow> 80 \<le> s)"
  by (auto simp add: getTextColor_def)

text \<open>
  Claim C4. The three display mappings band a score at 20, 40, 60 and 80: each
  returns its lowest band exactly for a score below 20, its second band exactly
  from 20 up to (not including) 40, its third from 40 up to 60, its fourth from 60
  up to 80, and its top band exactly from 80 on; and the band is the one of the
  specification's tier for that score (very weak, weak, moderate, strong, very
  strong).
\<close>

theorem score_bands:
  "((getStrengthColor s = ''text-red-400'' \<longleftrightarrow> s < 20) \<and>
    (getStrengthColor s = ''text-orange-400'' \<longleftrightarrow> 20 \<le> s \<and> s < 40) \<and>
    (getStrengthColor s = ''text-yellow-400'' \<longleftrightarrow> 40 \<le> s \<and> s < 60) \<and>
    (getStrengthColor s = ''text-cyan-400'' \<longleftrightarrow> 60 \<le> s \<and> s < 80) \<and>
    (getStrengthColor s = ''text-green-400'' \<longleftrightarrow> 80 \<le> s)) \<and>
   ((getStrengthGradient s = ''from-red-600 to-red-400'' \<longleftrightarrow> s < 20) \<and>
    (getStrengthGradient s = ''from-orange-500 to-red-400'' \<longleftrightarrow> 20 \<le> s \<and> s < 40) \<and>
    (getStrengthGradient s = ''from-yellow-500 to-amber-400'' \<longleftrightarrow> 40 \<le> s \<and> s < 60) \<and>
    (getStrengthGradient s = ''from-cyan-500 to-blue-400'' \<longleftrightarrow> 60 \<le> s \<and> s < 80) \<and>
    (getStrengthGradient s = ''from-green-500 to-emerald-400'' \<longleftrightarrow> 80 \<le> s)) \<and>
   ((getTextColor s = ''text-red-400'' \<longleftrightarrow> s < 20) \<and>
    (getTextColor s = ''text-orange-400'' \<longleftrightarrow> 20 \<le> s \<and> s < 40) \<and>
    (getTextColor s = ''text-yellow-400'' \<longleftrightarrow> 40 \<le> s \<and> s < 60) \<and>
    (getTextColor s = ''text-cyan-400'' \<longleftrightarrow> 60 \<le> s \<and> s < 80) \<and>
    (getTextColor s = ''text-green-400'' \<longleftrightarrow> 80 \<le> s)) \<and>
   getStrengthColor s = tier_color (spec_tier s) \<and>
   getStrengthGradient s = tier_gradient (spec_tier s) \<and>
   getTextColor s = tier_color (spec_tier s)"
  using getStrengthColor_bands [of s] getStrengthGradient_bands [of s]
    getTextColor_bands [of s] getStrengthColor_tier [of s]
    getStrengthGradient_tier [of s] getTextColor_tier [of s]
  by blast

theorem score_bands_witness:
  "getStrengthColor 19 = ''text-red-400'' \<and> getStrengthColor 20 = ''text-orange-400'' \<and>
   getStrengthGradient 59 = ''from-yellow-500 to-amber-400'' \<and>
   getStrengthGradient 60 = ''from-cyan-500 to-blue-400'' \<and>
   getTextColor 79 = ''text-cyan-400'' \<and> getTextColor 80 = ''text-green-400''"
  using score_bands [of 19] score_bands [of 20] score_bands [of 59] score_bands [of 60]
    score_bands [of 79] score_bands [of 80]
  by simp

text \<open>
  Claim C8. The strength meter's \<open>getTextColor\<close> and the helpers'
  \<open>getStrengthColor\<close> are the same function: they return the same class string
  for every score.
\<close>

theorem getTextColor_is_getStrengthColor:
  "getTextColor = getStrengthColor \<and> getTextColor score = getStrengthColor score"
  by (simp add: fun_eq_iff getTextColor_def getStrengthColor_def)

section \<open>Strength labels\<close>

lemma getStrengthLabel_tiers:
  "getStrengthLabel (JStr (js ''very_weak'')) = Value (JStr (js ''Very Weak''))"
  "getStrengthLabel (JStr (js ''weak'')) = Value (JStr (js ''Weak''))"
  "getStrengthLabel (JStr (js ''moderate'')) = Value (JStr (js ''Moderate''))"
  "getStrengthLabel (JStr (js ''strong'')) = Value (JStr (js ''Strong''))"
  "getStrengthLabel (JStr (js ''very_strong'')) = Value (JStr (js ''Very Strong''))"
  by (simp_all add: getStrengthLabel_def get_prop_def labels_def js_def)

text \<open>
  A key that is neither one of the five tiers nor a property of
  \<open>Object.prototype\<close> gets the fallback label.
\<close>

lemma getStrengthLabel_unknown:
  assumes "to_property_key v \<notin> fst ` set labels"
    and "to_property_key v \<notin> js ` set object_prototype_keys"
  shows "getStrengthLabel v = Value (JStr (js ''Unknown''))"
proof -
  have own: "map_of labels (to_property_key v) = None"
    using assms(1) by (simp add: map_of_eq_None_iff)
  have "fst ` set object_prototype = js ` set object_prototype_keys"
    by (simp add: object_prototype_def image_image)
  then have inh: "map_of object_prototype (to_property_key v) = None"
    using assms(2) by (simp add: map_of_eq_None_iff)
  show ?thesis
    by (simp add: getStrengthLabel_def get_prop_def own inh)
qed

lemma getStrengthLabel_null_undefined:
  "getStrengthLabel JNull = Value (JStr (js ''Unknown''))"
  "getStrengthLabel JUndefined = Value (JStr (js ''Unknown''))"
  "getStrengthLabel (JStr (js ''excellent'')) = Value (JStr (js ''Unknown''))"
  by (simp_all add: getStrengthLabel_def get_prop_def labels_def object_prototype_def
      object_prototype_keys_def js_def)

text \<open>
  Claim C10. \<open>getStrengthLabel\<close> returns the label of each of the five tier keys
  (\<open>getStrengthLabel_tiers\<close>), and \<open>'Unknown'\<close> for a key that names no property
  at all (\<open>getStrengthLabel_unknown\<close>). It does not return \<open>'Unknown'\<close> for every
  other input: the string \<open>constructor\<close> is no tier key, and the label object
  inherits a property of that name, which is truthy, so the lookup returns that
  built-in function and the fallback is not taken.
\<close>

theorem getStrengthLabel_inherited_key:
  "getStrengthLabel (JStr (js ''constructor'')) = Builtin ''Object.prototype.constructor'' \<and>
   getStrengthLabel (JStr (js ''constructor'')) \<noteq> Value (JStr (js ''Unknown'')) \<and>
   js ''constructor'' \<notin> fst ` set labels"
  by (simp add: getStrengthLabel_def get_prop_def labels_def object_prototype_def
      object_prototype_keys_def js_def)

section \<open>Breach results on screen\<close>

text \<open>
  A request that fails (network error, status outside 2xx) leaves the stored result
  as it was and shows an error toast, on both paths.
\<close>

lemma checkEmail_rejected:
  "trim (bc_email st) \<noteq> [] \<Longrightarrow>
   bc_emailResult (fst (checkEmail (Rejected e) st)) = bc_emailResult st \<and>
   Toast_error (JStr (js ''Failed to check email'')) \<in> set (snd (checkEmail (Rejected e) st))"
  by (simp add: checkEmail_def)

lemma checkPassword_rejected:
  "trim (bc_password st) \<noteq> [] \<Longrightarrow>
   bc_passwordResult (fst (checkPassword (Rejected e) st)) = bc_passwordResult st \<and>
   Toast_error (JStr (js ''Failed to check password''))
     \<in> set (snd (checkPassword (Rejected e) st))"
  by (simp add: checkPassword_def)

text \<open>The email section shows the yellow box for every result with an error.\<close>

lemma render_emailResult_error:
  "truthy (br_error r) \<Longrightarrow> render_emailResult (Some r) = Some (Unavailable_panel (br_error r))"
  by (simp add: render_emailResult_def)

text \<open>The password section never shows it; it shows one of the other two boxes.\<close>

lemma render_passwordResult_panels:
  "render_passwordResult (Some r) =
     Some (if truthy (br_breached r) then Breached_panel (br_count r) [] else Not_found_panel)"
  by (simp add: render_passwordResult_def)

text \<open>
  Claim C3. A result whose error field is set is shown as unavailable by the email
  section, but the password section does not look at the field: for the result
  \<open>{error: 'Service unavailable', breached: false, count: 0}\<close> it shows the green
  box of a password that was not found, where the email section shows the yellow
  box with the error.
\<close>

theorem password_error_shown_as_not_found:
  "truthy (br_error \<lparr>br_error = JStr (js ''Service unavailable''), br_breached = JBool False,
                      br_count = JNum 0, br_breaches = None, br_hash_info = None\<rparr>) \<and>
   render_passwordResult
     (Some \<lparr>br_error = JStr (js ''Service unavailable''), br_breached = JBool False,
            br_count = JNum 0, br_breaches = None, br_hash_info = None\<rparr>) = Some Not_found_panel \<and>
   render_emailResult
     (Some \<lparr>br_error = JStr (js ''Service unavailable''), br_breached = JBool False,
            br_count = JNum 0, br_breaches = None, br_hash_info = None\<rparr>) =
     Some (Unavailable_panel (JStr (js ''Service unavailable'')))"
  by (simp add: render_passwordResult_def render_emailResult_def js_def)

section \<open>Generation requests\<close>

lemma options_inv_updateOption: "options_inv opts \<Longrightarrow> options_inv (updateOption opts e)"
  by (cases e) (auto simp add: options_inv_def range_value_def)

lemma options_inv_foldl: "options_inv opts \<Longrightarrow> options_inv (foldl updateOption opts evs)"
  by (induction evs arbitrary: opts) (simp_all add: options_inv_updateOption)

lemma options_inv_after: "options_inv (options_after evs)"
  unfolding options_after_def
  by (rule options_inv_foldl) (simp add: options_inv_def initial_options_def)

lemma payload_within_spec: "options_inv opts \<Longrightarrow> generation_spec_ok (payload opts)"
  by (auto simp add: options_inv_def generation_spec_ok_def payload_def js_def)

text \<open>
  Claim C5. Whatever the user does with the controls, the request of
  \<open>generatePassword\<close> is within the bounds of the specification: it is either a
  password request with a length within 8..64 (hence within 8..128) and the four
  class booleans, or a passphrase request with a word count within 3..8 (hence
  within 3..10) and nothing else. The four booleans are independent: every
  combination of them can be set.
\<close>

theorem generator_request_bounds:
  "generatePassword (options_after evs) = [Post ''/generate'' (payload (options_after evs))] \<and>
   generation_spec_ok (payload (options_after evs)) \<and>
   (payload (options_after evs) =
      [(''type'', JStr (js ''password'')),
       (''length'', JNum (opt_length (options_after evs))),
       (''use_lowercase'', JBool (useLowercase (options_after evs))),
       (''use_uppercase'', JBool (useUppercase (options_after evs))),
       (''use_digits'', JBool (useDigits (options_after evs))),
       (''use_symbols'', JBool (useSymbols (options_after evs)))] \<and>
    8 \<le> opt_length (options_after evs) \<and> opt_length (options_after evs) \<le> 64
    \<or>
    payload (options_after evs) =
      [(''type'', JStr (js ''passphrase'')),
       (''word_count'', JNum (wordCount (options_after evs)))] \<and>
    3 \<le> wordCount (options_after evs) \<and> wordCount (options_after evs) \<le> 8) \<and>
   payload (options_after
      [Check_lowercase a, Check_uppercase b, Check_digits c, Check_symbols d]) =
      [(''type'', JStr (js ''password'')), (''length'', JNum 16),
       (''use_lowercase'', JBool a), (''use_uppercase'', JBool b),
       (''use_digits'', JBool c), (''use_symbols'', JBool d)]"
proof -
  have inv: "options_inv (options_after evs)" by (rule options_inv_after)
  have ok: "generation_spec_ok (payload (options_after evs))"
    using inv by (rule payload_within_spec)
  have shape: "payload (options_after evs) =
      [(''type'', JStr (js ''password'')),
       (''length'', JNum (opt_length (options_after evs))),
       (''use_lowercase'', JBool (useLowercase (options_after evs))),
       (''use_uppercase'', JBool (useUppercase (options_after evs))),
       (''use_digits'', JBool (useDigits (options_after evs))),
       (''use_symbols'', JBool (useSymbols (options_after evs)))] \<and>
    8 \<le> opt_length (options_after evs) \<and> opt_length (options_after evs) \<le> 64
    \<or>
    payload (options_after evs) =
      [(''type'', JStr (js ''passphrase'')),
       (''word_count'', JNum (wordCount (options_after evs)))] \<and>
    3 \<le> wordCount (options_after evs) \<and> wordCount (options_after evs) \<le> 8"
    using inv by (auto simp add: options_inv_def payload_def)
  have indep: "payload (options_after
      [Check_lowercase a, Check_uppercase b, Check_digits c, Check_symbols d]) =
      [(''type'', JStr (js ''password'')), (''length'', JNum 16),
       (''use_lowercase'', JBool a), (''use_uppercase'', JBool b),
       (''use_digits'', JBool c), (''use_symbols'', JBool d)]"
    by (simp add: options_after_def initial_options_def payload_def)
  show ?thesis
    using ok shape indep by (simp add: generatePassword_def)
qed

theorem generator_request_bounds_witness:
  "payload (options_after [Slide_length 200, Check_symbols False]) =
      [(''type'', JStr (js ''password'')), (''length'', JNum 64),
       (''use_lowercase'', JBool True), (''use_uppercase'', JBool True),
       (''use_digits'', JBool True), (''use_symbols'', JBool False)] \<and>
   generation_spec_ok (payload (options_after [Slide_length 200, Check_symbols False])) \<and>
   payload (options_after [Click_passphrase, Slide_wordCount 1]) =
      [(''type'', JStr (js ''passphrase'')), (''word_count'', JNum 3)] \<and>
   generation_spec_ok (payload (options_after [Click_passphrase, Slide_wordCount 1]))"
  using generator_request_bounds [of "[Slide_length 200, Check_symbols False]"]
    generator_request_bounds [of "[Click_passphrase, Slide_wordCount 1]"]
  by (simp add: options_after_def initial_options_def payload_def range_value_def)

section \<open>One-time codes\<close>

lemma sanitize_code_digits: "list_all is_digit (sanitize_code raw)"
  by (auto simp add: sanitize_code_def list_all_iff dest: in_set_takeD)

lemma sanitize_code_length: "length (sanitize_code raw) \<le> 6"
  by (simp add: sanitize_code_def)

text \<open>A code of at most six digits passes the field unchanged.\<close>

lemma sanitize_code_fixpoint:
  "list_all is_digit raw \<Longrightarrow> length raw \<le> 6 \<Longrightarrow> sanitize_code raw = raw"
  by (simp add: sanitize_code_def list_all_iff)

lemma verifyCode_after_sanitized:
  "list_all is_digit (tf_verifyCode (verifyCode_after oc raws)) \<and>
   length (tf_verifyCode (verifyCode_after oc raws)) \<le> 6"
proof (induction raws rule: rev_induct)
  case Nil
  show ?case by (simp add: verifyCode_after_def initial_two_factor_setup_def)
next
  case (snoc raw raws)
  show ?case
    by (simp add: verifyCode_after_def setVerifyCode_onChange_def
        sanitize_code_digits sanitize_code_length)
qed

lemma verifyAndEnable_requests:
  "requests (snd (verifyAndEnable resp st)) =
     (if length (tf_verifyCode st) = 6
      then [(''/auth/2fa/verify'', [(''code'', JStr (tf_verifyCode st))])] else [])"
  by (cases resp) (simp_all add: verifyAndEnable_def)

text \<open>
  The login request carries the code of the form whenever the server has asked for
  one and the field is not empty; the login page tests no length, so that code has
  one to six digits.
\<close>

lemma login_request_code:
  "login_request form =
     Post ''/auth/login''
       ([(''email'', JStr (lg_email form)), (''password'', JStr (lg_password form))]
        @ (if lg_requires2FA form \<and> lg_totpCode form \<noteq> []
           then [(''totp_code'', JStr (lg_totpCode form))] else []))"
  by (simp add: login_request_def login_body_def)

text \<open>
  Claim C6. For every raw input the code field keeps only the digits 0-9 (code units
  48..57), in their order, and at most the first six of them; the two-factor setup
  and the login page store exactly that. The verification request
  (\<open>POST /auth/2fa/verify\<close> of \<open>verifyAndEnable\<close>) is issued exactly when the stored
  code has length 6; otherwise the handler changes nothing and the button is
  disabled. Hence, whatever the user has typed, a verification request carries
  exactly six decimal digits.
\<close>

theorem totp_code_six_digits:
  "list_all is_digit (sanitize_code raw) \<and>
   length (sanitize_code raw) \<le> 6 \<and>
   sanitize_code raw = take 6 (filter (\<lambda>c. 48 \<le> c \<and> c \<le> 57) raw) \<and>
   tf_verifyCode (setVerifyCode_onChange st raw) = sanitize_code raw \<and>
   lg_totpCode (totpCode_onChange form raw) = sanitize_code raw \<and>
   requests (snd (verifyAndEnable resp st)) =
     (if length (tf_verifyCode st) = 6
      then [(''/auth/2fa/verify'', [(''code'', JStr (tf_verifyCode st))])] else []) \<and>
   (length (tf_verifyCode st) \<noteq> 6 \<longrightarrow>
      verify_button_disabled st \<and> fst (verifyAndEnable resp st) = st) \<and>
   (requests (snd (verifyAndEnable resp (verifyCode_after oc raws))) = [] \<or>
    requests (snd (verifyAndEnable resp (verifyCode_after oc raws))) =
      [(''/auth/2fa/verify'', [(''code'', JStr (tf_verifyCode (verifyCode_after oc raws)))])] \<and>
    length (tf_verifyCode (verifyCode_after oc raws)) = 6 \<and>
    list_all is_digit (tf_verifyCode (verifyCode_after oc raws)))"
proof -
  have filter_eq: "sanitize_code raw = take 6 (filter (\<lambda>c. 48 \<le> c \<and> c \<le> 57) raw)"
    by (simp add: sanitize_code_def is_digit_def [abs_def])
  have guard: "length (tf_verifyCode st) \<noteq> 6 \<longrightarrow>
      verify_button_disabled st \<and> fst (verifyAndEnable resp st) = st"
    by (simp add: verify_button_disabled_def verifyAndEnable_def)
  have reach: "requests (snd (verifyAndEnable resp (verifyCode_after oc raws))) = [] \<or>
    requests (snd (verifyAndEnable resp (verifyCode_after oc raws))) =
      [(''/auth/2fa/verify'', [(''code'', JStr (tf_verifyCode (verifyCode_after oc raws)))])] \<and>
    length (tf_verifyCode (verifyCode_after oc raws)) = 6 \<and>
    list_all is_digit (tf_verifyCode (verifyCode_after oc raws))"
    using verifyCode_after_sanitized [of oc raws]
    by (simp add: verifyAndEnable_requests)
  show ?thesis
    using sanitize_code_digits [of raw] sanitize_code_length [of raw] filter_eq guard reach
      verifyAndEnable_requests [of resp st]
    by (simp add: setVerifyCode_onChange_def totpCode_onChange_def)
qed

theorem totp_code_six_digits_witness:
  "sanitize_code (js ''12a34 5678'') = js ''123456'' \<and>
   requests (snd (verifyAndEnable (Resolved ())
       (verifyCode_after False [js ''12'', js ''12a34 5678'']))) =
     [(''/auth/2fa/verify'', [(''code'', JStr (js ''123456''))])] \<and>
   length (tf_verifyCode (verifyCode_after False [js ''12x''])) \<noteq> 6 \<and>
   verify_button_disabled (verifyCode_after False [js ''12x'']) \<and>
   requests (snd (verifyAndEnable (Resolved ()) (verifyCode_after False [js ''12x'']))) = []"
  using totp_code_six_digits [of "js ''12a34 5678''" "verifyCode_after False [js ''12x'']"
      "\<lparr>lg_email = [], lg_password = [], lg_totpCode = [], lg_requires2FA = True\<rparr>"
      "Resolved ()" False "[js ''12'', js ''12a34 5678'']"]
  by (simp add: verifyCode_after_def initial_two_factor_setup_def setVerifyCode_onChange_def
      sanitize_code_def is_digit_def js_def verifyAndEnable_def verify_button_disabled_def)

section \<open>Registration\<close>

text \<open>
  Claim C9. The submit handler of the registration page calls \<open>register\<close> (the
  request \<open>POST /auth/register\<close>) exactly when the password equals its
  confirmation, has at least 8 code units, and contains an upper-case letter A-Z, a
  lower-case letter a-z and a digit 0-9. In every other form state it returns with
  the state unchanged, a toast, and no request.
\<close>

theorem register_requires_valid_password:
  "requests (snd (handleSubmit resp st)) =
     (if rg_password st = rg_confirmPassword st \<and>
         8 \<le> length (rg_password st) \<and>
         list_ex is_upper (rg_password st) \<and>
         list_ex is_lower (rg_password st) \<and>
         list_ex is_digit (rg_password st)
      then [(''/auth/register'',
             [(''email'', JStr (rg_email st)), (''password'', JStr (rg_password st))])]
      else []) \<and>
   (\<not> (rg_password st = rg_confirmPassword st \<and>
        8 \<le> length (rg_password st) \<and>
        list_ex is_upper (rg_password st) \<and>
        list_ex is_lower (rg_password st) \<and>
        list_ex is_digit (rg_password st)) \<longrightarrow>
    fst (handleSubmit resp st) = st \<and>
    (snd (handleSubmit resp st) = [Toast_error (JStr (js ''Passwords do not match''))] \<or>
     snd (handleSubmit resp st) =
       [Toast_error (JStr (js ''Please meet all password requirements''))]))"
  by (cases resp) (auto simp add: handleSubmit_def passwordRequirements_def regex_test_def)

theorem register_requires_valid_password_witness:
  "requests (snd (handleSubmit (Resolved ())
      \<lparr>rg_email = js ''a@b.io'', rg_password = js ''password1'',
       rg_confirmPassword = js ''password1'', rg_passwordAnalysis = (None :: unit option),
       rg_loading = False\<rparr>)) = [] \<and>
   requests (snd (handleSubmit (Resolved ())
      \<lparr>rg_email = js ''a@b.io'', rg_password = js ''Password1'',
       rg_confirmPassword = js ''Password1'', rg_passwordAnalysis = (None :: unit option),
       rg_loading = False\<rparr>)) =
     [(''/auth/register'',
       [(''email'', JStr (js ''a@b.io'')), (''password'', JStr (js ''Password1''))])]"
  using register_requires_valid_password [of "Resolved ()"
      "\<lparr>rg_email = js ''a@b.io'', rg_password = js ''password1'',
       rg_confirmPassword = js ''password1'', rg_passwordAnalysis = (None :: unit option),
       rg_loading = False\<rparr>"]
    register_requires_valid_password [of "Resolved ()"
      "\<lparr>rg_email = js ''a@b.io'', rg_password = js ''Password1'',
       rg_confirmPassword = js ''Password1'', rg_passwordAnalysis = (None :: unit option),
       rg_loading = False\<rparr>"]
  by (simp add: js_def is_upper_def is_lower_def is_digit_def)

section \<open>Analysis requests\<close>

lemma dropWhile_all: "(\<forall>x\<in>set (dropWhile P s). P x) \<longleftrightarrow> (\<forall>x\<in>set s. P x)"
proof
  assume L: "\<forall>x\<in>set (dropWhile P s). P x"
  have "dropWhile P s = []"
  proof (rule ccontr)
    assume ne: "dropWhile P s \<noteq> []"
    then have "\<not> P (hd (dropWhile P s))" by (rule hd_dropWhile)
    moreover from ne have "hd (dropWhile P s) \<in> set (dropWhile P s)" by simp
    ultimately show False using L by blast
  qed
  then show "\<forall>x\<in>set s. P x" by (simp add: dropWhile_eq_Nil_conv)
next
  assume "\<forall>x\<in>set s. P x"
  then show "\<forall>x\<in>set (dropWhile P s). P x" by (blast dest: set_dropWhileD)
qed

lemma trim_empty_iff: "trim s = [] \<longleftrightarrow> list_all is_white_space s"
  by (simp add: trim_def dropWhile_eq_Nil_conv list_all_iff dropWhile_all)

lemma trim_nonempty: "trim s \<noteq> [] \<Longrightarrow> s \<noteq> []"
  by (auto simp add: trim_def)

lemma analyze_total: "password \<noteq> [] \<Longrightarrow> \<exists>r. analyze password = Inr r"
  by (simp add: analyze_def)

lemma analyzePassword_blank:
  "trim (an_password st) = [] \<Longrightarrow> analyzePassword resp st = (st, [])"
  by (simp add: analyzePassword_def)

lemma analyzePassword_requests:
  "requests (snd (analyzePassword resp st)) =
     (if trim (an_password st) = [] then []
      else [(''/analyze'', [(''password'', JStr (an_password st))])])"
  by (cases resp) (simp_all add: analyzePassword_def)

text \<open>
  The registration page asks for an analysis while the user types: for every value
  of the password field but the empty one, blank values included.
\<close>

lemma handleChange_requests:
  "requests (snd (handleChange resp name v st)) =
     (if name = Password_field \<and> v \<noteq> []
      then [(''/analyze'', [(''password'', JStr v)])] else [])"
  by (cases resp) (simp_all add: handleChange_def)

text \<open>
  Claim C7. The analyzer rejects the empty password with a validation error and
  fails on no other input: every non-empty password gets a result. On the Analyzer
  page a password that is empty or consists of white space only (that is, whose
  \<open>trim\<close> is empty) leads to no request and no change of state, and its button
  is disabled; for every other password the page issues one analysis request with
  the password as typed, the analyzer returns a result for it, and the page stores
  that result.
\<close>

theorem analyzer_fails_on_empty_only:
  "analyze [] = Inl Validation_error \<and>
   (analyze password = Inl Validation_error \<longleftrightarrow> password = []) \<and>
   (password \<noteq> [] \<longrightarrow> (\<exists>r. analyze password = Inr r \<and> ar_length r = length password)) \<and>
   (trim (an_password st) = [] \<longleftrightarrow> list_all is_white_space (an_password st)) \<and>
   (trim (an_password st) = [] \<longrightarrow>
      analyzePassword resp st = (st, []) \<and> analyze_button_disabled st) \<and>
   (trim (an_password st) \<noteq> [] \<longrightarrow>
      requests (snd (analyzePassword resp st)) =
        [(''/analyze'', [(''password'', JStr (an_password st))])] \<and>
      (\<exists>r. analyze (an_password st) = Inr r \<and>
           fst (analyzePassword (analyze_response (an_password st)) st) =
             st\<lparr>an_analysis := Some r, an_loading := False\<rparr>))"
proof -
  have total: "password \<noteq> [] \<longrightarrow>
      (\<exists>r. analyze password = Inr r \<and> ar_length r = length password)"
    by (simp add: analyze_def)
  have blank: "trim (an_password st) = [] \<longrightarrow>
      analyzePassword resp st = (st, []) \<and> analyze_button_disabled st"
    by (simp add: analyzePassword_def analyze_button_disabled_def)
  have sent: "trim (an_password st) \<noteq> [] \<longrightarrow>
      requests (snd (analyzePassword resp st)) =
        [(''/analyze'', [(''password'', JStr (an_password st))])] \<and>
      (\<exists>r. analyze (an_password st) = Inr r \<and>
           fst (analyzePassword (analyze_response (an_password st)) st) =
             st\<lparr>an_analysis := Some r, an_loading := False\<rparr>)"
  proof
    assume ne: "trim (an_password st) \<noteq> []"
    then have "an_password st \<noteq> []" by (rule trim_nonempty)
    then obtain r where r: "analyze (an_password st) = Inr r"
      using analyze_total by blast
    have "fst (analyzePassword (analyze_response (an_password st)) st) =
        st\<lparr>an_analysis := Some r, an_loading := False\<rparr>"
      using ne r by (simp add: analyzePassword_def analyze_response_def)
    then show "requests (snd (analyzePassword resp st)) =
        [(''/analyze'', [(''password'', JStr (an_password st))])] \<and>
      (\<exists>r. analyze (an_password st) = Inr r \<and>
           fst (analyzePassword (analyze_response (an_password st)) st) =
             st\<lparr>an_analysis := Some r, an_loading := False\<rparr>)"
      using ne r by (simp add: analyzePassword_requests)
  qed
  show ?thesis
    using total blank sent trim_empty_iff [of "an_password st"]
    by (simp add: analyze_def)
qed

theorem analyzer_fails_on_empty_only_witness:
  "trim (js ''  '') = [] \<and>
   analyze (js ''  '') =
     Inr \<lparr>ar_length = 2, ar_lowercase = 0, ar_uppercase = 0, ar_digits = 0, ar_symbols = 2,
          ar_unique = 1, ar_patterns = []\<rparr> \<and>
   analyzePassword (analyze_response (js ''  ''))
     \<lparr>an_password = js ''  '', an_analysis = None, an_loading = False\<rparr> =
     (\<lparr>an_password = js ''  '', an_analysis = None, an_loading = False\<rparr>, []) \<and>
   trim (js '' aaaaaaaa'') \<noteq> [] \<and>
   requests (snd (analyzePassword (analyze_response (js '' aaaaaaaa''))
     \<lparr>an_password = js '' aaaaaaaa'', an_analysis = None, an_loading = False\<rparr>)) =
     [(''/analyze'', [(''password'', JStr (js '' aaaaaaaa''))])] \<and>
   an_analysis (fst (analyzePassword (analyze_response (js '' aaaaaaaa''))
     \<lparr>an_password = js '' aaaaaaaa'', an_analysis = None, an_loading = False\<rparr>)) =
     Some \<lparr>ar_length = 9, ar_lowercase = 8, ar_uppercase = 0, ar_digits = 0, ar_symbols = 1,
           ar_unique = 2, ar_patterns = [Repeated_run]\<rparr>"
  using analyzer_fails_on_empty_only [of "js ''  ''"
      "\<lparr>an_password = js ''  '', an_analysis = None, an_loading = False\<rparr>"
      "analyze_response (js ''  '')"]
    analyzer_fails_on_empty_only [of "js '' aaaaaaaa''"
      "\<lparr>an_password = js '' aaaaaaaa'', an_analysis = None, an_loading = False\<rparr>"
      "analyze_response (js '' aaaaaaaa'')"]
  by (simp add: js_def trim_def is_white_space_def analyzePassword_def analyze_response_def
      analyze_def detect_patterns_def is_lower_def is_upper_def is_digit_def is_symbol_def)

section \<open>The breach query\<close>

lemma replicate_step: "0 < n \<Longrightarrow> replicate n x = x # replicate (n - 1) x"
  by (cases n) simp_all

lemma schedule_step:
  "0 < n \<Longrightarrow>
   schedule n ws = schedule (n - 1) (rotl 1 (ws ! 2 XOR ws ! 7 XOR ws ! 13 XOR ws ! 15) # ws)"
  by (cases n) simp_all

text \<open>
  Two digests, computed step by step: the padded block, the 80 words of the message
  schedule, the state after the 80 rounds, the digest. The two passwords fall into
  the same bucket \<open>5BAA6\<close>.
\<close>

lemma sha1_hex_password: "sha1_hex (ascii ''password'') = ''5BAA61E4C9B93F3F0682250B6CF8331B7EE68FD8''"
proof -
  have block: "be_words (pad (ascii ''password'')) =
      [1885434739, 2003792484, 2147483648, 0, 0, 0, 0, 0, 0, 0, 0, 0, 0, 0, 0, 64]"
    by (simp add: pad_def ascii_def be64_def replicate_step)
  have expanded: "message_schedule
      [1885434739, 2003792484, 2147483648, 0, 0, 0, 0, 0, 0, 0, 0, 0, 0, 0, 0, 64] =
      [1885434739, 2003792484, 2147483648, 0, 0, 0, 0, 0, 0, 0, 0, 0, 0, 0, 0, 64,
       3770869479, 4007584968, 129, 3246771663, 3720202641, 258, 2198576031,
       3145438115, 3246772171, 3685416622, 1995908677, 1032, 204369534, 3991817742,
       3348296416, 3004576426, 2572341063, 1724271250, 817478654, 2980974340,
       1757212100, 3428372130, 1768248160, 1995924679, 3304181975, 2819868329,
       2033135108, 828582827, 371683302, 3609147397, 227314392, 1778443827,
       1946892503, 3857585102, 2522168346, 1899865524, 3827402009, 4157299957,
       2722847159, 2710274696, 2084386274, 3182120695, 2980970208, 3606644721,
       2218941856, 4143118407, 443275410, 1414419883, 3508769488, 1713782846,
       791553169, 39377089, 1209893473, 523765079, 2357909517, 15087466, 118929674,
       66953835, 877617526, 1250639098, 2878556785, 328700827, 445865322, 842715421]"
    by (simp add: message_schedule_def schedule_step rotl_def)
  have mixed: "rounds 0
      [1885434739, 2003792484, 2147483648, 0, 0, 0, 0, 0, 0, 0, 0, 0, 0, 0, 0, 64,
       3770869479, 4007584968, 129, 3246771663, 3720202641, 258, 2198576031,
       3145438115, 3246772171, 3685416622, 1995908677, 1032, 204369534, 3991817742,
       3348296416, 3004576426, 2572341063, 1724271250, 817478654, 2980974340,
       1757212100, 3428372130, 1768248160, 1995924679, 3304181975, 2819868329,
       2033135108, 828582827, 371683302, 3609147397, 227314392, 1778443827,
       1946892503, 3857585102, 2522168346, 1899865524, 3827402009, 4157299957,
       2722847159, 2710274696, 2084386274, 3182120695, 2980970208, 3606644721,
       2218941856, 4143118407, 443275410, 1414419883, 3508769488, 1713782846,
       791553169, 39377089, 1209893473, 523765079, 2357909517, 15087466, 118929674,
       66953835, 877617526, 1250639098, 2878556785, 328700827, 445865322, 842715421]
      (0x67452301, 0xEFCDAB89, 0x98BADCFE, 0x10325476, 0xC3D2E1F0) =
      (4100275939, 3656094646, 1841776653, 1556471461, 3138629096)"
    by (simp add: rotl_def sha1_f_def sha1_k_def)
  have "sha1 (ascii ''password'') =
      (1537892836, 3384360767, 109192459, 1828205339, 2129039320)"
    by (simp add: sha1_def block compress_def expanded mixed del: rounds.simps)
  then show ?thesis
    by (simp add: sha1_hex_def hex32_def hex_digit_def nibble_def)
qed

lemma sha1_hex_blic: "sha1_hex (ascii ''blic'') = ''5BAA6AB91F322902BFFCEC5C4FC22F2D69761736''"
proof -
  have block: "be_words (pad (ascii ''blic'')) =
      [1651272035, 2147483648, 0, 0, 0, 0, 0, 0, 0, 0, 0, 0, 0, 0, 0, 32]"
    by (simp add: pad_def ascii_def be64_def replicate_step)
  have expanded: "message_schedule
      [1651272035, 2147483648, 0, 0, 0, 0, 0, 0, 0, 0, 0, 0, 0, 0, 0, 32] =
      [1651272035, 2147483648, 0, 0, 0, 0, 0, 0, 0, 0, 0, 0, 0, 0, 0, 32, 3302544070,
       1, 64, 2310120845, 2, 128, 325274395, 68, 2310120589, 650548788, 8, 512,
       1301097580, 336, 2943825851, 2602194962, 2597514934, 2054, 909422769,
       650548086, 3185368806, 1818845770, 650548918, 8456, 4262744306, 5384,
       4151540666, 2980413865, 3192758386, 33124, 1166908453, 1253024476, 2783256354,
       3331728570, 1818848866, 3185500014, 3347290417, 88200, 1090718238, 441982939,
       1493621189, 1818326026, 2115982562, 2868513996, 2688918232, 1768054692,
       388172714, 1816688330, 4090621507, 1378536, 1937484535, 3387476691, 1302360638,
       8479744, 2375820613, 2946686538, 2828144329, 2518985430, 84346126, 1170550501,
       3653559092, 22581440, 1498930322, 880182968]"
    by (simp add: message_schedule_def schedule_step rotl_def)
  have mixed: "rounds 0
      [1651272035, 2147483648, 0, 0, 0, 0, 0, 0, 0, 0, 0, 0, 0, 0, 0, 32, 3302544070,
       1, 64, 2310120845, 2, 128, 325274395, 68, 2310120589, 650548788, 8, 512,
       1301097580, 336, 2943825851, 2602194962, 2597514934, 2054, 909422769,
       650548086, 3185368806, 1818845770, 650548918, 8456, 4262744306, 5384,
       4151540666, 2980413865, 3192758386, 33124, 1166908453, 1253024476, 2783256354,
       3331728570, 1818848866, 3185500014, 3347290417, 88200, 1090718238, 441982939,
       1493621189, 1818326026, 2115982562, 2868513996, 2688918232, 1768054692,
       388172714, 1816688330, 4090621507, 1378536, 1937484535, 3387476691, 1302360638,
       8479744, 2375820613, 2946686538, 2828144329, 2518985430, 84346126, 1170550501,
       3653559092, 22581440, 1498930322, 880182968]
      (0x67452301, 0xEFCDAB89, 0x98BADCFE, 0x10325476, 0xC3D2E1F0) =
      (4100278200, 795114873, 658640734, 1066392247, 2778936646)"
    by (simp add: rotl_def sha1_f_def sha1_k_def)
  have "sha1 (ascii ''blic'') =
      (1537895097, 523380994, 3221023836, 1338126125, 1769346870)"
    by (simp add: sha1_def block compress_def expanded mixed del: rounds.simps)
  then show ?thesis
    by (simp add: sha1_hex_def hex32_def hex_digit_def nibble_def)
qed

lemma nibble_less: "nibble k w < 16"
proof -
  have "nibble k w = take_bit 4 (unat (drop_bit k w))"
    by (simp add: nibble_def unsigned_take_bit_eq)
  also have "\<dots> < 2 ^ 4" by (rule take_bit_nat_less_exp)
  finally show ?thesis by simp
qed

lemma hex_digit_upper_hex: "n < 16 \<Longrightarrow> is_upper_hex (hex_digit n)"
  unfolding hex_digit_def is_upper_hex_def by (rule nth_mem) simp

lemma hex32_upper_hex: "list_all is_upper_hex (hex32 w)"
  by (simp add: hex32_def hex_digit_upper_hex nibble_less)

lemma sha1_hex_length: "length (sha1_hex msg) = 40"
  by (cases "sha1 msg") (simp add: sha1_hex_def hex32_def)

lemma sha1_hex_upper_hex: "list_all is_upper_hex (sha1_hex msg)"
  by (cases "sha1 msg") (simp add: sha1_hex_def hex32_upper_hex)

lemma list_all_take: "list_all P xs \<Longrightarrow> list_all P (take n xs)"
  by (auto simp add: list_all_iff dest: in_set_takeD)

text \<open>
  The component of the front end does not hash: it posts the password as typed to
  the application's own endpoint, where the oracle runs. The oracle is the caller
  of the corpus.
\<close>

lemma checkPassword_requests:
  "requests (snd (checkPassword resp st)) =
     (if trim (bc_password st) = [] then []
      else [(''/breach/check-password'', [(''password'', JStr (bc_password st))])])"
  by (cases resp) (simp_all add: checkPassword_def)

text \<open>
  Claim C2. For every password, what the password breach check sends to the remote
  corpus is one query: the first 5 characters of the SHA-1 hash of the password,
  always exactly 5 upper-case hexadecimal digits. The other 35 characters stay with
  the caller, and the outcome is computed locally, by looking the suffix up in the
  pairs the corpus returned (unavailable when it returned nothing). The query is a
  function of the prefix alone: two passwords with the same prefix send the same
  query, whatever the corpus.
\<close>

theorem breach_query_is_hash_prefix:
  "fst (oracle_checkPassword remote password) = [take 5 (sha1_hex password)] \<and>
   length (take 5 (sha1_hex password)) = 5 \<and>
   list_all is_upper_hex (take 5 (sha1_hex password)) \<and>
   length (drop 5 (sha1_hex password)) = 35 \<and>
   snd (oracle_checkPassword remote password) =
     (case remote (take 5 (sha1_hex password)) of
        None \<Rightarrow> Unavailable
      | Some pairs \<Rightarrow>
          (case map_of pairs (drop 5 (sha1_hex password)) of
             None \<Rightarrow> Not_breached
           | Some n \<Rightarrow> Breached n)) \<and>
   (take 5 (sha1_hex password) = take 5 (sha1_hex password') \<longrightarrow>
      fst (oracle_checkPassword remote password) =
      fst (oracle_checkPassword remote' password'))"
  using sha1_hex_length [of password]
    list_all_take [OF sha1_hex_upper_hex, of 5 password]
  by (simp add: oracle_checkPassword_def Let_def)

theorem breach_query_is_hash_prefix_witness:
  "take 5 (sha1_hex (ascii ''password'')) = ''5BAA6'' \<and>
   take 5 (sha1_hex (ascii ''blic'')) = ''5BAA6'' \<and>
   fst (oracle_checkPassword test_corpus (ascii ''password'')) = [''5BAA6''] \<and>
   fst (oracle_checkPassword (\<lambda>query. None) (ascii ''blic'')) = [''5BAA6''] \<and>
   snd (oracle_checkPassword test_corpus (ascii ''password'')) = Breached 3861493 \<and>
   snd (oracle_checkPassword test_corpus (ascii ''blic'')) = Not_breached \<and>
   snd (oracle_checkPassword (\<lambda>query. None) (ascii ''blic'')) = Unavailable"
  using breach_query_is_hash_prefix [of test_corpus "ascii ''password''" "ascii ''blic''"
      "\<lambda>query. None"]
    breach_query_is_hash_prefix [of test_corpus "ascii ''blic''" "ascii ''blic''" test_corpus]
    breach_query_is_hash_prefix [of "\<lambda>query. None" "ascii ''blic''" "ascii ''blic''"
      test_corpus]
  by (simp add: sha1_hex_password sha1_hex_blic test_corpus_def)

end
